theory Spec2Isabelle
  imports Main "HOL-Library.Sublist"
begin

section \<open>Python values used by \<^verbatim>\<open>computer.py\<close>\<close>

subsection \<open>Formatting an integer: \<^verbatim>\<open>str(n)\<close> and \<^verbatim>\<open>f"{n}"\<close>\<close>

text \<open>
  Python renders an \<^verbatim>\<open>int\<close> in decimal, most significant digit first, with a
  leading minus sign for a negative number and no leading zeros.
\<close>

definition digit_char :: "nat \<Rightarrow> char" where
  "digit_char d = ''0123456789'' ! d"

fun str_nat :: "nat \<Rightarrow> string" where
  "str_nat n = (if n < 10 then [digit_char n] else str_nat (n div 10) @ [digit_char (n mod 10)])"

declare str_nat.simps [simp del]

definition str_int :: "int \<Rightarrow> string" where
  "str_int i = (if i < 0 then CHR ''-'' # str_nat (nat (- i)) else str_nat (nat i))"

subsection \<open>Dictionaries\<close>

text \<open>
  A Python \<^verbatim>\<open>dict\<close> keeps its entries in insertion order and holds every key once.
  It is modelled as an association list; all dictionaries of the module map strings to
  strings. \<open>wf_dict\<close> is the invariant the Python type guarantees.
\<close>

type_synonym dict = "(string \<times> string) list"

definition wf_dict :: "dict \<Rightarrow> bool" where
  "wf_dict d = distinct (map fst d)"

text \<open>
  \<^verbatim>\<open>d[k] = v\<close>: an existing key keeps its position and gets the new value; a new key is
  appended.
\<close>

fun setitem :: "dict \<Rightarrow> string \<Rightarrow> string \<Rightarrow> dict" where
  "setitem [] k v = [(k, v)]"
| "setitem ((k', v') # d) k v = (if k' = k then (k', v) # d else (k', v') # setitem d k v)"

text \<open>
  \<^verbatim>\<open>{**a, **b}\<close>: a new dictionary that receives the entries of \<open>a\<close> and then those
  of \<open>b\<close>, one \<^verbatim>\<open>d[k] = v\<close> at a time.
\<close>

definition dict_merge :: "dict \<Rightarrow> dict \<Rightarrow> dict" where
  "dict_merge a b = foldl (\<lambda>d (k, v). setitem d k v) [] (a @ b)"

section \<open>\<^verbatim>\<open>Computer.run_lammps\<close>\<close>

definition run_lammps :: "int \<Rightarrow> string \<Rightarrow> dict \<Rightarrow> dict \<Rightarrow> string" where
  "run_lammps num_procs lmp_exec args var =
     (let call_string = ''mpirun -n '' @ str_int num_procs @ '' '' @ lmp_exec @ '' '';
          call_string = foldl (\<lambda>cs (key, value). cs @ key @ '' '' @ value @ '' '')
                          call_string args;
          call_string = foldl (\<lambda>cs (key, value). cs @ ''-var '' @ key @ '' '' @ value @ '' '')
                          call_string var
      in call_string)"

section \<open>The store\<close>

text \<open>
  Dictionaries are objects: a launch mutates the dictionary its target refers to, and a
  default argument \<^verbatim>\<open>args={}\<close> is one object, created when the module is loaded and
  handed to every call that omits the argument. The store maps references to dictionaries.
  Python references are always live, so a lookup cannot fail. Besides the dictionaries the
  world holds what the module acts on: the files it writes, which paths can be opened for
  writing, and the commands it passes to \<^verbatim>\<open>os.system\<close>, oldest first.
  \<^verbatim>\<open>os.system\<close> returns the exit status of the command, which the module drops, so
  a command that fails changes nothing for the module.
\<close>

text \<open>
  The two exceptions of the module: the one \<^verbatim>\<open>Computer\<close> raises, and the one
  \<^verbatim>\<open>open\<close> raises for a path that cannot be opened (it carries the path). A
  statement that may raise yields \<open>Inl\<close> of the exception and the world it leaves behind,
  or \<open>Inr\<close> of the world it returns in.
\<close>

datatype error = NotImplementedError string | OSError string

type_synonym ref = nat

record world =
  heap :: "ref \<Rightarrow> dict"
  next_ref :: ref
  files :: "string \<Rightarrow> string option"
  can_open :: "string \<Rightarrow> bool"
  shell :: "string list"

text \<open>Creating a dictionary object, as a dictionary display does.\<close>

definition new_dict :: "dict \<Rightarrow> world \<Rightarrow> ref \<times> world" where
  "new_dict d w = (next_ref w, w\<lparr>heap := (heap w)(next_ref w := d), next_ref := Suc (next_ref w)\<rparr>)"

text \<open>\<^verbatim>\<open>r[k] = v\<close> on the object behind a reference.\<close>

definition store_setitem :: "ref \<Rightarrow> string \<Rightarrow> string \<Rightarrow> world \<Rightarrow> world" where
  "store_setitem r k v w = w\<lparr>heap := (heap w)(r := setitem (heap w r) k v)\<rparr>"

definition os_system :: "string \<Rightarrow> world \<Rightarrow> world" where
  "os_system command w = w\<lparr>shell := shell w @ [command]\<rparr>"

text \<open>
  \<^verbatim>\<open>with open(path, "w") as f\<close> followed by writes. When the path cannot be opened,
  \<^verbatim>\<open>open\<close> raises, nothing is written and the statements after it are not reached;
  otherwise the file holds what was written.
\<close>

definition write_file :: "string \<Rightarrow> string \<Rightarrow> world \<Rightarrow> (error \<times> world) + world" where
  "write_file path text w =
     (if can_open w path then Inr (w\<lparr>files := (files w)(path := Some text)\<rparr>)
      else Inl (OSError path, w))"

text \<open>
  The default-argument dictionaries of the seven \<^verbatim>\<open>={}\<close> parameters, in the order the
  module creates them, and the world right after the module is loaded on a machine
  without files, where every path can be opened for writing.
\<close>

definition Computer_init_args_default :: ref where "Computer_init_args_default = 0"
definition CPU_init_args_default :: ref where "CPU_init_args_default = 1"
definition GPU_init_args_default :: ref where "GPU_init_args_default = 2"
definition SlurmCPU_init_settings_default :: ref where "SlurmCPU_init_settings_default = 3"
definition SlurmCPU_init_args_default :: ref where "SlurmCPU_init_args_default = 4"
definition SlurmGPU_init_settings_default :: ref where "SlurmGPU_init_settings_default = 5"
definition SlurmGPU_init_args_default :: ref where "SlurmGPU_init_args_default = 6"

definition module_world :: world where
  "module_world =
     \<lparr>heap = (\<lambda>r. []), next_ref = 7, files = (\<lambda>p. None), can_open = (\<lambda>p. True), shell = []\<rparr>"

text \<open>An omitted argument is \<open>None\<close> and takes the parameter's default.\<close>

definition default_arg :: "'a \<Rightarrow> 'a option \<Rightarrow> 'a" where
  "default_arg d x = (case x of None \<Rightarrow> d | Some v \<Rightarrow> v)"

section \<open>\<^verbatim>\<open>class Computer\<close>\<close>

text \<open>The first argument is \<^verbatim>\<open>self.__class__.__name__\<close>.\<close>

definition Computer_init :: "string \<Rightarrow> string option \<Rightarrow> ref option \<Rightarrow> error + unit" where
  "Computer_init class_name lmp_exec args =
     Inl (NotImplementedError (''Class '' @ class_name @ '' has no instance '__init__'.''))"

definition Computer_call :: "string \<Rightarrow> string \<Rightarrow> ref \<Rightarrow> error + unit" where
  "Computer_call class_name lmp_script var =
     Inl (NotImplementedError (''Class '' @ class_name @ '' has no instance '__call__'.''))"

section \<open>\<^verbatim>\<open>class CPU\<close>\<close>

record CPU =
  CPU_num_procs :: int
  CPU_lmp_exec :: string
  CPU_args :: ref

definition CPU_init :: "int option \<Rightarrow> string option \<Rightarrow> ref option \<Rightarrow> CPU" where
  "CPU_init num_procs lmp_exec args =
     \<lparr>CPU_num_procs = default_arg 4 num_procs,
      CPU_lmp_exec = default_arg ''lmp_mpi'' lmp_exec,
      CPU_args = default_arg CPU_init_args_default args\<rparr>"

definition CPU_call :: "CPU \<Rightarrow> string \<Rightarrow> ref \<Rightarrow> world \<Rightarrow> world" where
  "CPU_call self lmp_script var w =
     (let w = store_setitem (CPU_args self) ''-in'' lmp_script w;
          call_string = run_lammps (CPU_num_procs self) (CPU_lmp_exec self)
                          (heap w (CPU_args self)) (heap w var)
      in os_system call_string w)"

section \<open>\<^verbatim>\<open>class GPU\<close>\<close>

record GPU =
  GPU_gpu_per_node :: int
  GPU_lmp_exec :: string
  GPU_args :: ref

definition GPU_default_args :: "int \<Rightarrow> dict" where
  "GPU_default_args gpu_per_node =
     [(''-pk'', ''kokkos newton on comm no''),
      (''-k'', ''on g '' @ str_int gpu_per_node),
      (''-sf'', ''kk'')]"

definition GPU_init :: "int option \<Rightarrow> string option \<Rightarrow> ref option \<Rightarrow> world \<Rightarrow> GPU \<times> world" where
  "GPU_init gpu_per_node lmp_exec args w =
     (let gpu_per_node = default_arg 1 gpu_per_node;
          default_args = GPU_default_args gpu_per_node;
          (r, w) = new_dict (dict_merge default_args
                      (heap w (default_arg GPU_init_args_default args))) w
      in (\<lparr>GPU_gpu_per_node = gpu_per_node,
           GPU_lmp_exec = default_arg ''lmp_kokkos_cuda_mpi'' lmp_exec,
           GPU_args = r\<rparr>, w))"

definition GPU_call :: "GPU \<Rightarrow> string \<Rightarrow> ref \<Rightarrow> world \<Rightarrow> world" where
  "GPU_call self lmp_script var w =
     (let w = store_setitem (GPU_args self) ''-in'' lmp_script w;
          call_string = run_lammps (GPU_gpu_per_node self) (GPU_lmp_exec self)
                          (heap w (GPU_args self)) (heap w var)
      in os_system call_string w)"

section \<open>\<^verbatim>\<open>class SlurmCPU\<close>\<close>

text \<open>
  \<^verbatim>\<open>self.settings\<close> is a dictionary made by the constructor, which nothing in the
  module changes afterwards; the object holds it by value. \<^verbatim>\<open>self.args\<close> is the
  caller's (or the default) dictionary itself.
\<close>

record SlurmCPU =
  SlurmCPU_num_nodes :: int
  SlurmCPU_num_procs :: int
  SlurmCPU_lmp_exec :: string
  SlurmCPU_lmp_module :: string
  SlurmCPU_generate_jobscript :: bool
  SlurmCPU_jobscript :: string
  SlurmCPU_settings :: dict
  SlurmCPU_args :: ref

definition SlurmCPU_default_settings :: "int \<Rightarrow> int \<Rightarrow> dict" where
  "SlurmCPU_default_settings num_procs num_nodes =
     [(''job-name'', ''CPU-job''),
      (''account'', ''nn9272k''),
      (''time'', ''05:00:00''),
      (''partition'', ''normal''),
      (''ntasks'', str_int num_procs),
      (''nodes'', str_int num_nodes),
      (''output'', ''slurm.out'')]"

definition SlurmCPU_init ::
  "int \<Rightarrow> string option \<Rightarrow> ref option \<Rightarrow> ref option \<Rightarrow> int option \<Rightarrow> string option \<Rightarrow>
   bool option \<Rightarrow> string option \<Rightarrow> world \<Rightarrow> SlurmCPU" where
  "SlurmCPU_init num_nodes lmp_exec settings args procs_per_node lmp_module
       generate_jobscript jobscript w =
     (let num_procs = num_nodes * default_arg 16 procs_per_node;
          default_settings = SlurmCPU_default_settings num_procs num_nodes
      in \<lparr>SlurmCPU_num_nodes = num_nodes,
          SlurmCPU_num_procs = num_procs,
          SlurmCPU_lmp_exec = default_arg ''lmp_mpi'' lmp_exec,
          SlurmCPU_lmp_module = default_arg ''LAMMPS/13Mar18-foss-2018a'' lmp_module,
          SlurmCPU_generate_jobscript = default_arg True generate_jobscript,
          SlurmCPU_jobscript = default_arg ''jobscript'' jobscript,
          SlurmCPU_settings = dict_merge default_settings
             (heap w (default_arg SlurmCPU_init_settings_default settings)),
          SlurmCPU_args = default_arg SlurmCPU_init_args_default args\<rparr>)"

text \<open>The text \<^verbatim>\<open>gen_jobscript\<close> writes, one \<^verbatim>\<open>f.write\<close> after the other.\<close>

definition SlurmCPU_jobscript_text :: "SlurmCPU \<Rightarrow> dict \<Rightarrow> dict \<Rightarrow> string" where
  "SlurmCPU_jobscript_text self args var =
     (let f = ''#!/bin/bash\<newline>\<newline>'';
          f = foldl (\<lambda>f (key, setting). f @ ''#SBATCH --'' @ key @ ''='' @ setting @ ''\<newline>#\<newline>'')
                f (SlurmCPU_settings self);
          f = f @ ''## Set up job environment:\<newline>'';
          f = f @ ''source /cluster/bin/jobsetup\<newline>'';
          f = f @ ''module purge\<newline>'';
          f = f @ ''set -o errexit\<newline>\<newline>'';
          f = f @ ''module load '' @ SlurmCPU_lmp_module self @ ''\<newline>\<newline>'';
          f = f @ run_lammps (SlurmCPU_num_procs self) (SlurmCPU_lmp_exec self) args var
      in f)"

definition SlurmCPU_gen_jobscript ::
  "SlurmCPU \<Rightarrow> ref \<Rightarrow> ref \<Rightarrow> world \<Rightarrow> (error \<times> world) + world" where
  "SlurmCPU_gen_jobscript self args var w =
     write_file (SlurmCPU_jobscript self)
       (SlurmCPU_jobscript_text self (heap w args) (heap w var)) w"

definition SlurmCPU_call ::
  "SlurmCPU \<Rightarrow> string \<Rightarrow> ref \<Rightarrow> world \<Rightarrow> (error \<times> world) + world" where
  "SlurmCPU_call self lmp_script var w =
     (let w = store_setitem (SlurmCPU_args self) ''-in'' lmp_script w
      in if SlurmCPU_generate_jobscript self
         then (case SlurmCPU_gen_jobscript self (SlurmCPU_args self) var w of
                 Inl raised \<Rightarrow> Inl raised
               | Inr w \<Rightarrow> Inr (os_system (''sbatch '' @ SlurmCPU_jobscript self) w))
         else Inr (os_system (''sbatch '' @ SlurmCPU_jobscript self) w))"

section \<open>\<^verbatim>\<open>class SlurmGPU\<close>\<close>

record SlurmGPU =
  SlurmGPU_gpu_per_node :: int
  SlurmGPU_lmp_exec :: string
  SlurmGPU_generate_jobscript :: bool
  SlurmGPU_jobscript :: string
  SlurmGPU_settings :: dict
  SlurmGPU_args :: ref

definition SlurmGPU_default_settings :: "int \<Rightarrow> dict" where
  "SlurmGPU_default_settings gpu_per_node =
     [(''job-name'', ''GPU-job''),
      (''partition'', ''normal''),
      (''ntasks'', str_int gpu_per_node),
      (''cpus-per-task'', ''2''),
      (''gres'', ''gpu:'' @ str_int gpu_per_node),
      (''output'', ''slurm.out'')]"

definition SlurmGPU_default_args :: "int \<Rightarrow> dict" where
  "SlurmGPU_default_args gpu_per_node =
     [(''-pk'', ''kokkos newton on neigh half''),
      (''-k'', ''on g '' @ str_int gpu_per_node),
      (''-sf'', ''kk'')]"

definition SlurmGPU_init ::
  "int option \<Rightarrow> string option \<Rightarrow> ref option \<Rightarrow> ref option \<Rightarrow> bool option \<Rightarrow> string option \<Rightarrow>
   world \<Rightarrow> SlurmGPU \<times> world" where
  "SlurmGPU_init gpu_per_node lmp_exec settings args generate_jobscript jobscript w =
     (let gpu_per_node = default_arg 1 gpu_per_node;
          default_settings = SlurmGPU_default_settings gpu_per_node;
          default_args = SlurmGPU_default_args gpu_per_node;
          (r, w') = new_dict (dict_merge default_args
                       (heap w (default_arg SlurmGPU_init_args_default args))) w
      in (\<lparr>SlurmGPU_gpu_per_node = gpu_per_node,
           SlurmGPU_lmp_exec = default_arg ''lmp'' lmp_exec,
           SlurmGPU_generate_jobscript = default_arg True generate_jobscript,
           SlurmGPU_jobscript = default_arg ''jobscript'' jobscript,
           SlurmGPU_settings = dict_merge default_settings
              (heap w' (default_arg SlurmGPU_init_settings_default settings)),
           SlurmGPU_args = r\<rparr>, w'))"

definition SlurmGPU_jobscript_text :: "SlurmGPU \<Rightarrow> dict \<Rightarrow> dict \<Rightarrow> string" where
  "SlurmGPU_jobscript_text self args var =
     (let f = ''#!/bin/bash\<newline>\<newline>'';
          f = foldl (\<lambda>f (key, setting). f @ ''#SBATCH --'' @ key @ ''='' @ setting @ ''\<newline>#\<newline>'')
                f (SlurmGPU_settings self);
          f = f @ ''echo $CUDA_VISIBLE_DEVICES\<newline>'';
          f = f @ run_lammps (SlurmGPU_gpu_per_node self) (SlurmGPU_lmp_exec self) args var
      in f)"

definition SlurmGPU_gen_jobscript ::
  "SlurmGPU \<Rightarrow> ref \<Rightarrow> ref \<Rightarrow> world \<Rightarrow> (error \<times> world) + world" where
  "SlurmGPU_gen_jobscript self args var w =
     write_file (SlurmGPU_jobscript self)
       (SlurmGPU_jobscript_text self (heap w args) (heap w var)) w"

definition SlurmGPU_call ::
  "SlurmGPU \<Rightarrow> string \<Rightarrow> ref \<Rightarrow> world \<Rightarrow> (error \<times> world) + world" where
  "SlurmGPU_call self lmp_script var w =
     (let w = store_setitem (SlurmGPU_args self) ''-in'' lmp_script w
      in if SlurmGPU_generate_jobscript self
         then (case SlurmGPU_gen_jobscript self (SlurmGPU_args self) var w of
                 Inl raised \<Rightarrow> Inl raised
               | Inr w \<Rightarrow> Inr (os_system (''sbatch '' @ SlurmGPU_jobscript self) w))
         else Inr (os_system (''sbatch '' @ SlurmGPU_jobscript self) w))"

section \<open>Calling a target\<close>

text \<open>
  \<^verbatim>\<open>computer(lmp_script, var)\<close> runs the \<^verbatim>\<open>__call__\<close> of the object's class. The
  local targets never raise. A run of launches on one target is a sequence of calls; an
  exception ends it.
\<close>

datatype computer = CPU_obj CPU | GPU_obj GPU | SlurmCPU_obj SlurmCPU | SlurmGPU_obj SlurmGPU

fun call :: "computer \<Rightarrow> string \<Rightarrow> ref \<Rightarrow> world \<Rightarrow> (error \<times> world) + world" where
  "call (CPU_obj self) lmp_script var w = Inr (CPU_call self lmp_script var w)"
| "call (GPU_obj self) lmp_script var w = Inr (GPU_call self lmp_script var w)"
| "call (SlurmCPU_obj self) lmp_script var w = SlurmCPU_call self lmp_script var w"
| "call (SlurmGPU_obj self) lmp_script var w = SlurmGPU_call self lmp_script var w"

fun args_of :: "computer \<Rightarrow> ref" where
  "args_of (CPU_obj self) = CPU_args self"
| "args_of (GPU_obj self) = GPU_args self"
| "args_of (SlurmCPU_obj self) = SlurmCPU_args self"
| "args_of (SlurmGPU_obj self) = SlurmGPU_args self"


section \<open>Lines of a text\<close>

text \<open>The lines of a text are its pieces between newline characters.\<close>

fun split_lines :: "string \<Rightarrow> string list" where
  "split_lines [] = [[]]"
| "split_lines (c # cs) =
     (let ls = split_lines cs
      in if c = CHR ''\<newline>'' then [] # ls else (c # hd ls) # tl ls)"

declare split_lines.simps [simp del]

section \<open>Vocabulary of the statements\<close>

text \<open>
  The parts of a command line: its head, the rendering of one option and the rendering of
  one variable; and the piece of a string that starts at an offset and has a given length.
\<close>

definition command_head :: "int \<Rightarrow> string \<Rightarrow> string" where
  "command_head n e = ''mpirun -n '' @ str_int n @ '' '' @ e @ '' ''"

definition option_segment :: "string \<times> string \<Rightarrow> string" where
  "option_segment = (\<lambda>(key, value). key @ '' '' @ value @ '' '')"

definition var_segment :: "string \<times> string \<Rightarrow> string" where
  "var_segment = (\<lambda>(key, value). ''-var '' @ key @ '' '' @ value @ '' '')"

definition slice :: "string \<Rightarrow> nat \<Rightarrow> nat \<Rightarrow> string" where
  "slice s off n = take n (drop off s)"

text \<open>
  A world in which a caller has made two dictionaries after loading the module: options
  at reference 7 and scheduler settings at reference 8.
\<close>

definition caller_world :: world where
  "caller_world =
     snd (new_dict [(''time'', ''01:00:00''), (''mem'', ''4G'')]
       (snd (new_dict [(''-sf'', ''gpu''), (''-log'', ''none'')] module_world)))"

text \<open>Strings and dictionaries without a newline character.\<close>

definition no_newline :: "string \<Rightarrow> bool" where
  "no_newline s = (CHR ''\<newline>'' \<notin> set s)"

definition dict_no_newline :: "dict \<Rightarrow> bool" where
  "dict_no_newline d = list_all (\<lambda>(key, value). no_newline key \<and> no_newline value) d"

text \<open>
  What a job script holds for one scheduler setting: the text of the write, and its two
  lines.
\<close>

definition directive_text :: "string \<times> string \<Rightarrow> string" where
  "directive_text = (\<lambda>(key, setting). ''#SBATCH --'' @ key @ ''='' @ setting @ ''\<newline>#\<newline>'')"

definition directive_lines :: "string \<times> string \<Rightarrow> string list" where
  "directive_lines = (\<lambda>(key, setting). [''#SBATCH --'' @ key @ ''='' @ setting, ''#''])"

text \<open>
  The path of the job script a launch of the target writes, if it writes one: cluster
  targets with script generation on do. A launch is unblocked when that path, if any, can
  be opened for writing.
\<close>

fun generated_script :: "computer \<Rightarrow> string option" where
  "generated_script (CPU_obj x) = None"
| "generated_script (GPU_obj x) = None"
| "generated_script (SlurmCPU_obj x) =
     (if SlurmCPU_generate_jobscript x then Some (SlurmCPU_jobscript x) else None)"
| "generated_script (SlurmGPU_obj x) =
     (if SlurmGPU_generate_jobscript x then Some (SlurmGPU_jobscript x) else None)"

definition unblocked :: "computer \<Rightarrow> world \<Rightarrow> bool" where
  "unblocked c w = (case generated_script c of None \<Rightarrow> True | Some p \<Rightarrow> can_open w p)"

text \<open>
  Merging with override precedence, as the specification words it: every key of the
  defaults keeps its place and is bound to the caller's value when the caller binds it and
  to its default value otherwise; the entries of the caller for other keys follow, in the
  caller's order. \<open>merged\<close> says that a stored dictionary is that merge: it is that list,
  it holds every key once, and a lookup finds the caller's value if there is one and the
  default value otherwise.
\<close>

definition caller_over_defaults :: "dict \<Rightarrow> dict \<Rightarrow> dict" where
  "caller_over_defaults defaults caller =
     map (\<lambda>(key, value). (key, case map_of caller key of None \<Rightarrow> value | Some v \<Rightarrow> v)) defaults
     @ filter (\<lambda>(key, value). key \<notin> set (map fst defaults)) caller"

definition merged :: "dict \<Rightarrow> dict \<Rightarrow> dict \<Rightarrow> bool" where
  "merged defaults caller stored =
     (stored = caller_over_defaults defaults caller
      \<and> wf_dict stored
      \<and> (\<forall>key. map_of stored key =
            (case map_of caller key of None \<Rightarrow> map_of defaults key | Some v \<Rightarrow> Some v)))"

text \<open>
  The lines of the job script of a \<^verbatim>\<open>SlurmCPU\<close> as claim C8 words them: the shebang
  line, one directive line per scheduler setting, the three environment-setup lines, the
  module-load line and the command, with nothing else in between.
\<close>

definition jobscript_lines_as_claimed :: "SlurmCPU \<Rightarrow> dict \<Rightarrow> dict \<Rightarrow> string list" where
  "jobscript_lines_as_claimed self args var =
     [''#!/bin/bash'']
     @ map (\<lambda>(key, setting). ''#SBATCH --'' @ key @ ''='' @ setting) (SlurmCPU_settings self)
     @ [''source /cluster/bin/jobsetup'', ''module purge'', ''set -o errexit'',
        ''module load '' @ SlurmCPU_lmp_module self,
        run_lammps (SlurmCPU_num_procs self) (SlurmCPU_lmp_exec self) args var]"

section \<open>The command line\<close>

lemma foldl_append_concat:
  "foldl (\<lambda>cs p. cs @ g p) acc xs = acc @ concat (map g xs)"
  by (induction xs arbitrary: acc) simp_all

lemma run_lammps_segments:
  "run_lammps n e args var =
     command_head n e @ concat (map option_segment args) @ concat (map var_segment var)"
proof -
  have a: "(\<lambda>cs (key, value). cs @ key @ '' '' @ value @ '' '') = (\<lambda>cs p. cs @ option_segment p)"
    by (simp add: option_segment_def fun_eq_iff split_def)
  have b: "(\<lambda>cs (key, value). cs @ ''-var '' @ key @ '' '' @ value @ '' '') = (\<lambda>cs p. cs @ var_segment p)"
    by (simp add: var_segment_def fun_eq_iff split_def)
  show ?thesis
    unfolding run_lammps_def Let_def a b foldl_append_concat command_head_def by simp
qed

lemma str_int_4: "str_int 4 = ''4''"
  by (simp add: str_int_def str_nat.simps digit_char_def)

lemma str_int_32: "str_int 32 = ''32''"
  by (simp add: str_int_def str_nat.simps digit_char_def)

lemma str_int_2: "str_int 2 = ''2''"
  by (simp add: str_int_def str_nat.simps digit_char_def)

text \<open>
  C1: \<^verbatim>\<open>run_lammps\<close> returns \<^verbatim>\<open>mpirun -n <n> <e> \<close> followed by every option as
  key, space, value, space, in the order of the option dictionary, and then every variable
  as \<^verbatim>\<open>-var\<close>, space, name, space, value, space, in the order of the variable dictionary.
  For 4 processes, the executable \<^verbatim>\<open>lmp_mpi\<close>, the option \<^verbatim>\<open>-in\<close> bound to
  \<^verbatim>\<open>in.melt\<close> and the variable \<^verbatim>\<open>T\<close> bound to \<^verbatim>\<open>300\<close> the result is
  \<^verbatim>\<open>mpirun -n 4 lmp_mpi -in in.melt -var T 300 \<close> with its trailing space.
\<close>

theorem run_lammps_string:
  "run_lammps n e args var =
     ''mpirun -n '' @ str_int n @ '' '' @ e @ '' ''
       @ concat (map (\<lambda>(key, value). key @ '' '' @ value @ '' '') args)
       @ concat (map (\<lambda>(key, value). ''-var '' @ key @ '' '' @ value @ '' '') var)
   \<and> run_lammps 4 ''lmp_mpi'' [(''-in'', ''in.melt'')] [(''T'', ''300'')]
       = ''mpirun -n 4 lmp_mpi -in in.melt -var T 300 ''"
proof
  show "run_lammps n e args var =
     ''mpirun -n '' @ str_int n @ '' '' @ e @ '' ''
       @ concat (map (\<lambda>(key, value). key @ '' '' @ value @ '' '') args)
       @ concat (map (\<lambda>(key, value). ''-var '' @ key @ '' '' @ value @ '' '') var)"
    using run_lammps_segments [of n e args var]
    by (simp add: command_head_def option_segment_def var_segment_def)
  show "run_lammps 4 ''lmp_mpi'' [(''-in'', ''in.melt'')] [(''T'', ''300'')]
       = ''mpirun -n 4 lmp_mpi -in in.melt -var T 300 ''"
    by (simp add: run_lammps_def str_int_4)
qed

lemma slice_concat_nth:
  assumes "i < length xs"
  shows "slice (pre @ concat xs @ post) (length pre + length (concat (take i xs))) (length (xs ! i)) = xs ! i"
proof -
  have "concat xs = concat (take i xs) @ xs ! i @ concat (drop (Suc i) xs)"
    using assms by (metis concat.simps(2) concat_append id_take_nth_drop)
  then show ?thesis by (simp add: slice_def)
qed

text \<open>
  C2: the command is tiled by its head and one segment per dictionary entry. Its length
  is the length of the head plus the lengths of all segments, so nothing is rendered
  twice and nothing else is rendered; the segment of the \<open>i\<close>-th option stands right
  after the segments of the options before it, and the segment of the \<open>j\<close>-th variable
  stands after the segments of all options and of the variables before it.
\<close>

theorem run_lammps_pairs_tile:
  "length (run_lammps n e args var) =
      length (command_head n e) + length (concat (map option_segment args))
        + length (concat (map var_segment var))
   \<and> (\<forall>i < length args.
        slice (run_lammps n e args var)
          (length (command_head n e) + length (concat (map option_segment (take i args))))
          (length (option_segment (args ! i))) = option_segment (args ! i))
   \<and> (\<forall>j < length var.
        slice (run_lammps n e args var)
          (length (command_head n e) + length (concat (map option_segment args))
             + length (concat (map var_segment (take j var))))
          (length (var_segment (var ! j))) = var_segment (var ! j))"
proof (intro conjI allI impI)
  show "length (run_lammps n e args var) =
      length (command_head n e) + length (concat (map option_segment args))
        + length (concat (map var_segment var))"
    by (simp add: run_lammps_segments)
next
  fix i assume i: "i < length args"
  then have "i < length (map option_segment args)" by simp
  from slice_concat_nth [OF this, of "command_head n e" "concat (map var_segment var)"] i
  show "slice (run_lammps n e args var)
          (length (command_head n e) + length (concat (map option_segment (take i args))))
          (length (option_segment (args ! i))) = option_segment (args ! i)"
    by (simp add: run_lammps_segments take_map)
next
  fix j assume j: "j < length var"
  then have "j < length (map var_segment var)" by simp
  from slice_concat_nth [OF this, of "command_head n e @ concat (map option_segment args)" "[]"] j
  show "slice (run_lammps n e args var)
          (length (command_head n e) + length (concat (map option_segment args))
             + length (concat (map var_segment (take j var))))
          (length (var_segment (var ! j))) = var_segment (var ! j)"
    by (simp add: run_lammps_segments take_map)
qed

theorem run_lammps_pairs_tile_witness:
  "(0::nat) < length [(''-in'', ''in.melt'')] \<and> (0::nat) < length [(''T'', ''300'')]
   \<and> length (run_lammps 4 ''lmp_mpi'' [(''-in'', ''in.melt'')] [(''T'', ''300'')]) = 43
   \<and> slice (run_lammps 4 ''lmp_mpi'' [(''-in'', ''in.melt'')] [(''T'', ''300'')]) 20 12
        = ''-in in.melt ''
   \<and> slice (run_lammps 4 ''lmp_mpi'' [(''-in'', ''in.melt'')] [(''T'', ''300'')]) 32 11
        = ''-var T 300 ''"
proof -
  note t = run_lammps_pairs_tile [of 4 "''lmp_mpi''" "[(''-in'', ''in.melt'')]" "[(''T'', ''300'')]"]
  have h: "length (command_head 4 ''lmp_mpi'') = 20"
    by (simp add: command_head_def str_int_4)
  from t have "length (run_lammps 4 ''lmp_mpi'' [(''-in'', ''in.melt'')] [(''T'', ''300'')]) = 43"
    by (simp add: h option_segment_def var_segment_def)
  moreover from t have "slice (run_lammps 4 ''lmp_mpi'' [(''-in'', ''in.melt'')] [(''T'', ''300'')]) 20 12
        = ''-in in.melt ''"
    by (simp add: h option_segment_def var_segment_def eval_nat_numeral)
  moreover from t have "slice (run_lammps 4 ''lmp_mpi'' [(''-in'', ''in.melt'')] [(''T'', ''300'')]) 32 11
        = ''-var T 300 ''"
    by (simp add: h option_segment_def var_segment_def eval_nat_numeral)
  ultimately show ?thesis by simp
qed

section \<open>Dictionary operations\<close>

subsection \<open>Setting an item\<close>

lemma map_of_setitem: "map_of (setitem d k v) = (map_of d)(k \<mapsto> v)"
  by (induction d k v rule: setitem.induct) (auto simp: fun_eq_iff)

lemma keys_setitem:
  "map fst (setitem d k v) = (if k \<in> set (map fst d) then map fst d else map fst d @ [k])"
  by (induction d k v rule: setitem.induct) auto

lemma wf_dict_setitem: "wf_dict d \<Longrightarrow> wf_dict (setitem d k v)"
  by (simp add: wf_dict_def keys_setitem)



lemma setitem_other: "k' \<noteq> k \<Longrightarrow> map_of (setitem d k v) k' = map_of d k'"
  by (simp add: map_of_setitem)

subsection \<open>Merging\<close>

lemma map_of_foldl_setitem:
  "map_of (foldl (\<lambda>d (k, v). setitem d k v) acc xs) = map_of acc ++ map_of (rev xs)"
proof (induction xs arbitrary: acc)
  case Nil
  show ?case by simp
next
  case (Cons x xs)
  obtain k v where x: "x = (k, v)" by (cases x)
  have "map_of (setitem acc k v) ++ map_of (rev xs) = map_of acc ++ (map_of (rev xs @ [(k, v)]))"
    by (auto simp: map_of_setitem fun_eq_iff map_add_def split: option.splits)
  with Cons show ?case by (simp add: x)
qed

lemma wf_dict_foldl_setitem:
  "wf_dict acc \<Longrightarrow> wf_dict (foldl (\<lambda>d (k, v). setitem d k v) acc xs)"
  by (induction xs arbitrary: acc) (auto simp: wf_dict_setitem)

lemma wf_dict_merge: "wf_dict (dict_merge a b)"
  unfolding dict_merge_def by (rule wf_dict_foldl_setitem) (simp add: wf_dict_def)

lemma map_of_rev_wf: "wf_dict d \<Longrightarrow> map_of (rev d) = map_of d"
  unfolding wf_dict_def
  by (rule ext) (metis map_of_eq_None_iff map_of_is_SomeI set_rev map_of_SomeD option.exhaust)

lemma map_of_merge:
  assumes "wf_dict a" and "wf_dict b"
  shows "map_of (dict_merge a b) = map_of a ++ map_of b"
  unfolding dict_merge_def map_of_foldl_setitem
  by (simp add: map_of_rev_wf [OF assms(1)] map_of_rev_wf [OF assms(2)])

section \<open>Lines\<close>

lemma split_lines_not_Nil: "split_lines s \<noteq> []"
  by (cases s) (simp_all add: split_lines.simps Let_def)

lemma split_lines_newline:
  "split_lines (a @ CHR ''\<newline>'' # b) = split_lines a @ split_lines b"
proof (induction a)
  case Nil
  show ?case by (simp add: split_lines.simps Let_def)
next
  case (Cons c a)
  then show ?case
    using split_lines_not_Nil [of a]
    by (cases "split_lines a") (simp_all add: split_lines.simps Let_def)
qed

lemma split_lines_no_newline: "no_newline s \<Longrightarrow> split_lines s = [s]"
  by (induction s) (auto simp: no_newline_def split_lines.simps Let_def)

lemma split_lines_line:
  "no_newline l \<Longrightarrow> split_lines (l @ CHR ''\<newline>'' # b) = l # split_lines b"
  by (simp add: split_lines_newline split_lines_no_newline)

lemma no_newline_append: "no_newline (a @ b) = (no_newline a \<and> no_newline b)"
  by (auto simp: no_newline_def)

lemma no_newline_str_nat: "no_newline (str_nat n)"
proof (induction n rule: str_nat.induct)
  case (1 n)
  have d: "no_newline [digit_char k]" if "k < 10" for k
  proof -
    from that have "digit_char k \<in> set ''0123456789''"
      unfolding digit_char_def by (intro nth_mem) simp
    then show ?thesis by (auto simp: no_newline_def)
  qed
  show ?case
  proof (cases "n < 10")
    case True
    then show ?thesis by (subst str_nat.simps) (simp add: d)
  next
    case False
    with 1 have "no_newline (str_nat (n div 10))" by simp
    moreover have "no_newline [digit_char (n mod 10)]" by (rule d) simp
    ultimately show ?thesis
      using False by (subst str_nat.simps) (simp add: no_newline_append)
  qed
qed

lemma no_newline_str_int: "no_newline (str_int i)"
  using no_newline_str_nat [of "nat (- i)"] no_newline_str_nat [of "nat i"]
  by (simp add: str_int_def no_newline_def)

lemma dict_no_newline_Cons:
  "dict_no_newline (p # d) = (no_newline (fst p) \<and> no_newline (snd p) \<and> dict_no_newline d)"
  by (simp add: dict_no_newline_def split_def)

lemma no_newline_simps:
  "no_newline []"
  "no_newline (c # s) = (c \<noteq> CHR ''\<newline>'' \<and> no_newline s)"
  by (auto simp: no_newline_def)

lemma no_newline_option_segments:
  "dict_no_newline d \<Longrightarrow> no_newline (concat (map option_segment d))"
  by (induction d)
     (simp_all add: dict_no_newline_Cons option_segment_def split_def no_newline_append
        no_newline_simps)

lemma no_newline_var_segments:
  "dict_no_newline d \<Longrightarrow> no_newline (concat (map var_segment d))"
  by (induction d)
     (simp_all add: dict_no_newline_Cons var_segment_def split_def no_newline_append
        no_newline_simps)

lemma no_newline_run_lammps:
  assumes "no_newline e" and "dict_no_newline a" and "dict_no_newline v"
  shows "no_newline (run_lammps n e a v)"
  unfolding run_lammps_segments command_head_def
  using assms(1) no_newline_str_int [of n] no_newline_option_segments [OF assms(2)]
    no_newline_var_segments [OF assms(3)]
  by (simp add: no_newline_append no_newline_simps)

section \<open>Job scripts\<close>

lemma foldl_directives:
  "foldl (\<lambda>f (key, setting). f @ ''#SBATCH --'' @ key @ ''='' @ setting @ ''\<newline>#\<newline>'') acc d
     = acc @ concat (map directive_text d)"
proof -
  have "(\<lambda>f (key, setting). f @ ''#SBATCH --'' @ key @ ''='' @ setting @ ''\<newline>#\<newline>'')
      = (\<lambda>f p. f @ directive_text p)"
    by (simp add: directive_text_def fun_eq_iff split_def)
  then show ?thesis by (simp add: foldl_append_concat)
qed

lemma SlurmCPU_jobscript_text_eq:
  "SlurmCPU_jobscript_text self args var =
     ''#!/bin/bash\<newline>\<newline>'' @ concat (map directive_text (SlurmCPU_settings self))
       @ ''## Set up job environment:\<newline>''
       @ ''source /cluster/bin/jobsetup\<newline>''
       @ ''module purge\<newline>''
       @ ''set -o errexit\<newline>\<newline>''
       @ ''module load '' @ SlurmCPU_lmp_module self @ ''\<newline>\<newline>''
       @ run_lammps (SlurmCPU_num_procs self) (SlurmCPU_lmp_exec self) args var"
  unfolding SlurmCPU_jobscript_text_def Let_def foldl_directives by simp


lemma split_lines_directives:
  "dict_no_newline d \<Longrightarrow>
     split_lines (concat (map directive_text d) @ rest)
       = concat (map directive_lines d) @ split_lines rest"
proof (induction d)
  case Nil
  show ?case by simp
next
  case (Cons p d)
  obtain k v where p: "p = (k, v)" by (cases p)
  from Cons.prems have kv: "no_newline k" "no_newline v" and d: "dict_no_newline d"
    by (simp_all add: dict_no_newline_Cons p)
  have l: "no_newline (''#SBATCH --'' @ k @ ''='' @ v)"
    using kv by (simp add: no_newline_def)
  have h: "no_newline ''#''" by (simp add: no_newline_def)
  have e: "concat (map directive_text (p # d)) @ rest
      = (''#SBATCH --'' @ k @ ''='' @ v) @ CHR ''\<newline>'' #
          (''#'' @ CHR ''\<newline>'' # (concat (map directive_text d) @ rest))"
    by (simp add: p directive_text_def)
  show ?case
    unfolding e
    by (simp only: split_lines_line [OF l] split_lines_line [OF h] Cons.IH [OF d])
       (simp add: p directive_lines_def)
qed


lemma split_lines_SlurmCPU:
  assumes "dict_no_newline (SlurmCPU_settings self)"
  shows "split_lines (SlurmCPU_jobscript_text self args var) =
     [''#!/bin/bash'', []] @ concat (map directive_lines (SlurmCPU_settings self))
       @ [''## Set up job environment:'', ''source /cluster/bin/jobsetup'', ''module purge'',
          ''set -o errexit'', []]
       @ split_lines (''module load '' @ SlurmCPU_lmp_module self @ ''\<newline>\<newline>''
           @ run_lammps (SlurmCPU_num_procs self) (SlurmCPU_lmp_exec self) args var)"
proof -
  have a: "no_newline ''#!/bin/bash''" "no_newline []" "no_newline ''## Set up job environment:''"
     "no_newline ''source /cluster/bin/jobsetup''" "no_newline ''module purge''"
     "no_newline ''set -o errexit''"
    by (simp_all add: no_newline_def)
  have e: "SlurmCPU_jobscript_text self args var =
      ''#!/bin/bash'' @ CHR ''\<newline>'' # ([] @ CHR ''\<newline>'' #
        (concat (map directive_text (SlurmCPU_settings self)) @
          (''## Set up job environment:'' @ CHR ''\<newline>'' #
          (''source /cluster/bin/jobsetup'' @ CHR ''\<newline>'' #
          (''module purge'' @ CHR ''\<newline>'' #
          (''set -o errexit'' @ CHR ''\<newline>'' #
          ([] @ CHR ''\<newline>'' #
          (''module load '' @ SlurmCPU_lmp_module self @ ''\<newline>\<newline>''
           @ run_lammps (SlurmCPU_num_procs self) (SlurmCPU_lmp_exec self) args var))))))))"
    by (simp add: SlurmCPU_jobscript_text_eq)
  show ?thesis
    unfolding e
    by (simp only: split_lines_line [OF a(1)] split_lines_line [OF a(2)]
          split_lines_line [OF a(3)] split_lines_line [OF a(4)] split_lines_line [OF a(5)]
          split_lines_line [OF a(6)] split_lines_directives [OF assms]) simp
qed

lemma split_lines_module_load:
  assumes "no_newline m"
  shows "split_lines (''module load '' @ m @ ''\<newline>\<newline>'' @ cmd)
     = (''module load '' @ m) # [] # split_lines cmd"
proof -
  have a: "no_newline (''module load '' @ m)" "no_newline []"
    using assms by (simp_all add: no_newline_simps no_newline_append)
  have e: "''module load '' @ m @ ''\<newline>\<newline>'' @ cmd
      = (''module load '' @ m) @ CHR ''\<newline>'' # ([] @ CHR ''\<newline>'' # cmd)"
    by simp
  show ?thesis
    unfolding e by (simp only: split_lines_line [OF a(1)] split_lines_line [OF a(2)])
qed

section \<open>Construction\<close>

lemma wf_GPU_default_args: "wf_dict (GPU_default_args n)"
  by (simp add: wf_dict_def GPU_default_args_def)

lemma wf_SlurmGPU_default_args: "wf_dict (SlurmGPU_default_args n)"
  by (simp add: wf_dict_def SlurmGPU_default_args_def)

lemma wf_SlurmGPU_default_settings: "wf_dict (SlurmGPU_default_settings n)"
  by (simp add: wf_dict_def SlurmGPU_default_settings_def)

lemma wf_SlurmCPU_default_settings: "wf_dict (SlurmCPU_default_settings p n)"
  by (simp add: wf_dict_def SlurmCPU_default_settings_def)

lemma GPU_init_args:
  "GPU_args (fst (GPU_init n e a w)) = next_ref w"
  "heap (snd (GPU_init n e a w)) =
     (heap w)(next_ref w := dict_merge (GPU_default_args (default_arg 1 n))
                 (heap w (default_arg GPU_init_args_default a)))"
  by (simp_all add: GPU_init_def new_dict_def Let_def)

lemma SlurmGPU_init_args:
  "SlurmGPU_args (fst (SlurmGPU_init n e s a g j w)) = next_ref w"
  "heap (snd (SlurmGPU_init n e s a g j w)) =
     (heap w)(next_ref w := dict_merge (SlurmGPU_default_args (default_arg 1 n))
                 (heap w (default_arg SlurmGPU_init_args_default a)))"
  "SlurmGPU_settings (fst (SlurmGPU_init n e s a g j w)) =
     dict_merge (SlurmGPU_default_settings (default_arg 1 n))
       (heap (snd (SlurmGPU_init n e s a g j w)) (default_arg SlurmGPU_init_settings_default s))"
  by (simp_all add: SlurmGPU_init_def new_dict_def Let_def)

lemma SlurmCPU_init_settings:
  "SlurmCPU_settings (SlurmCPU_init nn e s a ppn m g j w) =
     dict_merge (SlurmCPU_default_settings (nn * default_arg 16 ppn) nn)
       (heap w (default_arg SlurmCPU_init_settings_default s))"
  by (simp add: SlurmCPU_init_def Let_def)

lemma caller_world_simps:
  "heap caller_world 7 = [(''-sf'', ''gpu''), (''-log'', ''none'')]"
  "heap caller_world 8 = [(''time'', ''01:00:00''), (''mem'', ''4G'')]"
  "next_ref caller_world = 9"
  by (simp_all add: caller_world_def new_dict_def module_world_def)

text \<open>
  C5: a \<^verbatim>\<open>GPU\<close> made with \<^verbatim>\<open>gpu_per_node=2\<close> and no options holds, after a launch of
  the script \<open>s\<close>, the options \<^verbatim>\<open>-pk\<close>, \<^verbatim>\<open>-k\<close> (bound to \<^verbatim>\<open>on g 2\<close>), \<^verbatim>\<open>-sf\<close>
  (bound to \<^verbatim>\<open>kk\<close>) and \<^verbatim>\<open>-in\<close> (bound to \<open>s\<close>), and the command it passes to the shell
  starts with \<^verbatim>\<open>mpirun -n 2\<close>: the number of GPUs per node is the process count.
\<close>

theorem GPU_two_launch:
  assumes "heap w GPU_init_args_default = []"
  shows "heap (GPU_call (fst (GPU_init (Some 2) e None w)) s var (snd (GPU_init (Some 2) e None w)))
           (GPU_args (fst (GPU_init (Some 2) e None w)))
         = [(''-pk'', ''kokkos newton on comm no''), (''-k'', ''on g 2''), (''-sf'', ''kk''),
            (''-in'', s)]
    \<and> last (shell (GPU_call (fst (GPU_init (Some 2) e None w)) s var (snd (GPU_init (Some 2) e None w))))
         = ''mpirun -n 2 '' @ default_arg ''lmp_kokkos_cuda_mpi'' e
             @ '' -pk kokkos newton on comm no -k on g 2 -sf kk -in '' @ s @ '' ''
             @ concat (map var_segment
                 (heap (GPU_call (fst (GPU_init (Some 2) e None w)) s var
                    (snd (GPU_init (Some 2) e None w))) var))"
proof -
  have m: "dict_merge (GPU_default_args 2) [] =
      [(''-pk'', ''kokkos newton on comm no''), (''-k'', ''on g 2''), (''-sf'', ''kk'')]"
    by (simp add: dict_merge_def GPU_default_args_def str_int_2)
  have f: "GPU_gpu_per_node (fst (GPU_init (Some 2) e None w)) = 2"
      "GPU_lmp_exec (fst (GPU_init (Some 2) e None w)) = default_arg ''lmp_kokkos_cuda_mpi'' e"
    by (simp_all add: GPU_init_def new_dict_def Let_def default_arg_def)
  have h: "heap (GPU_call (fst (GPU_init (Some 2) e None w)) s var (snd (GPU_init (Some 2) e None w)))
           (GPU_args (fst (GPU_init (Some 2) e None w)))
         = [(''-pk'', ''kokkos newton on comm no''), (''-k'', ''on g 2''), (''-sf'', ''kk''),
            (''-in'', s)]"
    using assms
    by (simp add: GPU_call_def Let_def store_setitem_def os_system_def GPU_init_args
          default_arg_def m)
  have "last (shell (GPU_call (fst (GPU_init (Some 2) e None w)) s var (snd (GPU_init (Some 2) e None w))))
      = run_lammps 2 (default_arg ''lmp_kokkos_cuda_mpi'' e)
          (heap (GPU_call (fst (GPU_init (Some 2) e None w)) s var (snd (GPU_init (Some 2) e None w)))
             (GPU_args (fst (GPU_init (Some 2) e None w))))
          (heap (GPU_call (fst (GPU_init (Some 2) e None w)) s var (snd (GPU_init (Some 2) e None w))) var)"
    by (simp add: GPU_call_def Let_def store_setitem_def os_system_def f)
  then have c: "last (shell (GPU_call (fst (GPU_init (Some 2) e None w)) s var (snd (GPU_init (Some 2) e None w))))
         = ''mpirun -n 2 '' @ default_arg ''lmp_kokkos_cuda_mpi'' e
             @ '' -pk kokkos newton on comm no -k on g 2 -sf kk -in '' @ s @ '' ''
             @ concat (map var_segment
                 (heap (GPU_call (fst (GPU_init (Some 2) e None w)) s var
                    (snd (GPU_init (Some 2) e None w))) var))"
    unfolding h
    by (simp add: run_lammps_segments command_head_def option_segment_def str_int_2)
  from h c show ?thesis by blast
qed

theorem GPU_two_launch_witness:
  "heap module_world GPU_init_args_default = []
   \<and> heap (GPU_call (fst (GPU_init (Some 2) None None module_world)) ''in.melt'' 0
             (snd (GPU_init (Some 2) None None module_world)))
       (GPU_args (fst (GPU_init (Some 2) None None module_world)))
       = [(''-pk'', ''kokkos newton on comm no''), (''-k'', ''on g 2''), (''-sf'', ''kk''),
          (''-in'', ''in.melt'')]
   \<and> last (shell (GPU_call (fst (GPU_init (Some 2) None None module_world)) ''in.melt'' 0
             (snd (GPU_init (Some 2) None None module_world))))
       = ''mpirun -n 2 lmp_kokkos_cuda_mpi -pk kokkos newton on comm no -k on g 2 -sf kk -in in.melt ''"
proof -
  have e: "heap module_world GPU_init_args_default = []"
    by (simp add: module_world_def)
  have v: "heap (GPU_call (fst (GPU_init (Some 2) None None module_world)) ''in.melt'' 0
             (snd (GPU_init (Some 2) None None module_world))) 0 = []"
    by (simp add: GPU_call_def Let_def store_setitem_def os_system_def GPU_init_args
          module_world_def)
  from GPU_two_launch [OF e, of None "''in.melt''" 0] e show ?thesis
    unfolding v by (simp add: default_arg_def)
qed

section \<open>Launching\<close>

lemma call_blocked:
  assumes "generated_script c = Some p" and "\<not> can_open w p"
  shows "call c s v w = Inl (OSError p, store_setitem (args_of c) ''-in'' s w)"
proof (cases c)
  case (CPU_obj x)
  with assms show ?thesis by simp
next
  case (GPU_obj x)
  with assms show ?thesis by simp
next
  case (SlurmCPU_obj x)
  with assms show ?thesis
    by (cases "SlurmCPU_generate_jobscript x")
       (simp_all add: SlurmCPU_call_def Let_def store_setitem_def
          SlurmCPU_gen_jobscript_def write_file_def)
next
  case (SlurmGPU_obj x)
  with assms show ?thesis
    by (cases "SlurmGPU_generate_jobscript x")
       (simp_all add: SlurmGPU_call_def Let_def store_setitem_def
          SlurmGPU_gen_jobscript_def write_file_def)
qed

lemma call_unblocked:
  assumes "unblocked c w"
  shows "\<exists>w'. call c s v w = Inr w'
     \<and> heap w' = (heap w)(args_of c := setitem (heap w (args_of c)) ''-in'' s)
     \<and> can_open w' = can_open w
     \<and> (generated_script c = None \<longrightarrow> files w' = files w)"
proof (cases c)
  case (CPU_obj x)
  then show ?thesis
    by (simp add: CPU_call_def Let_def store_setitem_def os_system_def)
next
  case (GPU_obj x)
  then show ?thesis
    by (simp add: GPU_call_def Let_def store_setitem_def os_system_def)
next
  case (SlurmCPU_obj x)
  with assms show ?thesis
    by (cases "SlurmCPU_generate_jobscript x")
       (simp_all add: unblocked_def SlurmCPU_call_def Let_def store_setitem_def os_system_def
          SlurmCPU_gen_jobscript_def write_file_def)
next
  case (SlurmGPU_obj x)
  with assms show ?thesis
    by (cases "SlurmGPU_generate_jobscript x")
       (simp_all add: unblocked_def SlurmGPU_call_def Let_def store_setitem_def os_system_def
          SlurmGPU_gen_jobscript_def write_file_def)
qed










lemma str_int_1: "str_int 1 = ''1''"
  by (simp add: str_int_def str_nat.simps digit_char_def)


section \<open>Merging is overriding\<close>

lemma setitem_new: "k \<notin> set (map fst d) \<Longrightarrow> setitem d k v = d @ [(k, v)]"
  by (induction d) auto

lemma setitem_old:
  "k \<in> set (map fst d) \<Longrightarrow> wf_dict d \<Longrightarrow>
     setitem d k v = map (\<lambda>(k', v'). (k', if k' = k then v else v')) d"
proof (induction d)
  case Nil
  then show ?case by simp
next
  case (Cons p d)
  obtain k' v' where p: "p = (k', v')" by (cases p)
  show ?case
  proof (cases "k' = k")
    case True
    with Cons.prems(2) have "k \<notin> set (map fst d)" by (simp add: p wf_dict_def)
    then have "map (\<lambda>(k', v'). (k', if k' = k then v else v')) d = d"
      by (induction d) auto
    with True show ?thesis by (simp add: p)
  next
    case False
    with Cons show ?thesis by (simp add: p wf_dict_def)
  qed
qed

lemma foldl_setitem_fresh:
  "wf_dict (acc @ a) \<Longrightarrow> foldl (\<lambda>d (k, v). setitem d k v) acc a = acc @ a"
proof (induction a arbitrary: acc)
  case Nil
  show ?case by simp
next
  case (Cons p a)
  obtain k v where p: "p = (k, v)" by (cases p)
  from Cons.prems have "k \<notin> set (map fst acc)" by (auto simp: p wf_dict_def)
  then have s: "setitem acc k v = acc @ [(k, v)]" by (rule setitem_new)
  from Cons.prems have "wf_dict ((acc @ [(k, v)]) @ a)" by (simp add: p wf_dict_def)
  from Cons.IH [OF this] show ?case by (simp add: p s)
qed

lemma map_of_absent: "k \<notin> set (map fst d) \<Longrightarrow> map_of d k = None"
  by (simp add: map_of_eq_None_iff)

lemma override_step_old:
  assumes "k \<in> set (map fst acc)" and "wf_dict acc" and "k \<notin> set (map fst b)"
  shows "caller_over_defaults (setitem acc k v) b = caller_over_defaults acc ((k, v) # b)"
proof -
  have m: "map (\<lambda>(key, value). (key, case map_of b key of None \<Rightarrow> value | Some v \<Rightarrow> v))
             (map (\<lambda>(k', v'). (k', if k' = k then v else v')) acc)
         = map (\<lambda>(key, value). (key, case map_of ((k, v) # b) key of None \<Rightarrow> value | Some v \<Rightarrow> v)) acc"
    using map_of_absent [OF assms(3)] by (induction acc) (auto split: option.splits)
  have A: "map (\<lambda>(key, value). (key, case map_of b key of None \<Rightarrow> value | Some v \<Rightarrow> v))
             (setitem acc k v)
         = map (\<lambda>(key, value). (key, case map_of ((k, v) # b) key of None \<Rightarrow> value | Some v \<Rightarrow> v)) acc"
    unfolding setitem_old [OF assms(1,2)] by (rule m)
  have ks: "map fst (setitem acc k v) = map fst acc"
    using assms(1) by (simp add: keys_setitem)
  have B: "filter (\<lambda>(key, value). key \<notin> set (map fst (setitem acc k v))) b
         = filter (\<lambda>(key, value). key \<notin> set (map fst acc)) ((k, v) # b)"
    unfolding ks using assms(1) by simp
  show ?thesis
    unfolding caller_over_defaults_def by (simp only: A B)
qed

lemma override_step_new:
  assumes "k \<notin> set (map fst acc)" and "k \<notin> set (map fst b)"
  shows "caller_over_defaults (acc @ [(k, v)]) b = caller_over_defaults acc ((k, v) # b)"
proof -
  have m: "map (\<lambda>(key, value). (key, case map_of b key of None \<Rightarrow> value | Some v \<Rightarrow> v)) acc
         = map (\<lambda>(key, value). (key, case map_of ((k, v) # b) key of None \<Rightarrow> value | Some v \<Rightarrow> v)) acc"
    using assms(1) by (induction acc) auto
  have f: "filter (\<lambda>(key, value). key \<noteq> k \<and> key \<notin> set (map fst acc)) b
         = filter (\<lambda>(key, value). key \<notin> set (map fst acc)) b"
    using assms(2) by (induction b) auto
  show ?thesis
    unfolding caller_over_defaults_def
    using assms(1) m f map_of_absent [OF assms(2)] by (simp add: split_def)
qed

lemma foldl_setitem_override:
  "wf_dict acc \<Longrightarrow> wf_dict b \<Longrightarrow>
     foldl (\<lambda>d (k, v). setitem d k v) acc b = caller_over_defaults acc b"
proof (induction b arbitrary: acc)
  case Nil
  have "map (\<lambda>(key, value). (key, value)) acc = acc" by (induction acc) auto
  then show ?case by (simp add: caller_over_defaults_def)
next
  case (Cons p b)
  obtain k v where p: "p = (k, v)" by (cases p)
  from Cons.prems(2) have kb: "k \<notin> set (map fst b)" and wb: "wf_dict b"
    by (simp_all add: p wf_dict_def)
  have "foldl (\<lambda>d (k, v). setitem d k v) (setitem acc k v) b
      = caller_over_defaults (setitem acc k v) b"
    using Cons.prems(1) wb by (intro Cons.IH wf_dict_setitem)
  also have "\<dots> = caller_over_defaults acc ((k, v) # b)"
  proof (cases "k \<in> set (map fst acc)")
    case True
    then show ?thesis using Cons.prems(1) kb by (rule override_step_old)
  next
    case False
    then show ?thesis by (simp add: setitem_new override_step_new [OF False kb])
  qed
  finally show ?case by (simp add: p)
qed

lemma dict_merge_override:
  assumes "wf_dict a" and "wf_dict b"
  shows "dict_merge a b = caller_over_defaults a b"
proof -
  have "foldl (\<lambda>d (k, v). setitem d k v) [] a = a"
    using foldl_setitem_fresh [of "[]" a] assms(1) by simp
  then show ?thesis
    by (simp add: dict_merge_def foldl_setitem_override [OF assms])
qed

lemma merged_dict_merge:
  assumes "wf_dict a" and "wf_dict b"
  shows "merged a b (dict_merge a b)"
  unfolding merged_def
proof (intro conjI allI)
  show "dict_merge a b = caller_over_defaults a b" using assms by (rule dict_merge_override)
  show "wf_dict (dict_merge a b)" by (rule wf_dict_merge)
  show "map_of (dict_merge a b) key =
      (case map_of b key of None \<Rightarrow> map_of a key | Some v \<Rightarrow> Some v)" for key
    by (simp add: map_of_merge [OF assms] map_add_def)
qed


section \<open>Merging at construction\<close>

text \<open>
  C4: when a caller supplies an option dictionary \<open>a\<close> (to \<^verbatim>\<open>GPU\<close>, \<^verbatim>\<open>SlurmGPU\<close>) or
  a settings dictionary \<open>s\<close> (to \<^verbatim>\<open>SlurmCPU\<close>, \<^verbatim>\<open>SlurmGPU\<close>), whatever the other
  arguments are, the dictionary the constructor stores is the caller's dictionary merged
  over the defaults: it holds every key once, every key the caller binds is bound to the
  caller's value, and every other key of the defaults is bound to its default value. The
  merge is done once, by the constructor: the stored options are a new object, which a
  later change of the caller's dictionary does not reach.
\<close>

theorem init_merges_caller_over_defaults:
  assumes "wf_dict (heap w a)" and "wf_dict (heap w s)"
    and "a < next_ref w" and "s < next_ref w"
  shows "merged (GPU_default_args (default_arg 1 n)) (heap w a)
           (heap (snd (GPU_init n e (Some a) w)) (GPU_args (fst (GPU_init n e (Some a) w))))
    \<and> merged (SlurmGPU_default_args (default_arg 1 n)) (heap w a)
           (heap (snd (SlurmGPU_init n e s' (Some a) g j w))
              (SlurmGPU_args (fst (SlurmGPU_init n e s' (Some a) g j w))))
    \<and> merged (SlurmGPU_default_settings (default_arg 1 n)) (heap w s)
           (SlurmGPU_settings (fst (SlurmGPU_init n e (Some s) a' g j w)))
    \<and> merged (SlurmCPU_default_settings (nn * default_arg 16 ppn) nn) (heap w s)
           (SlurmCPU_settings (SlurmCPU_init nn e (Some s) a' ppn m g j w))
    \<and> heap (store_setitem a k v (snd (GPU_init n e (Some a) w)))
           (GPU_args (fst (GPU_init n e (Some a) w)))
         = heap (snd (GPU_init n e (Some a) w)) (GPU_args (fst (GPU_init n e (Some a) w)))
    \<and> heap (store_setitem a k v (snd (SlurmGPU_init n e s' (Some a) g j w)))
           (SlurmGPU_args (fst (SlurmGPU_init n e s' (Some a) g j w)))
         = heap (snd (SlurmGPU_init n e s' (Some a) g j w))
             (SlurmGPU_args (fst (SlurmGPU_init n e s' (Some a) g j w)))"
proof -
  have na: "a \<noteq> next_ref w" and ns: "s \<noteq> next_ref w"
    using assms(3,4) by simp_all
  have 1: "merged (GPU_default_args (default_arg 1 n)) (heap w a)
           (heap (snd (GPU_init n e (Some a) w)) (GPU_args (fst (GPU_init n e (Some a) w))))"
    using merged_dict_merge [OF wf_GPU_default_args assms(1)]
    by (simp add: GPU_init_args default_arg_def)
  have 2: "merged (SlurmGPU_default_args (default_arg 1 n)) (heap w a)
           (heap (snd (SlurmGPU_init n e s' (Some a) g j w))
              (SlurmGPU_args (fst (SlurmGPU_init n e s' (Some a) g j w))))"
    using merged_dict_merge [OF wf_SlurmGPU_default_args assms(1)]
    by (simp add: SlurmGPU_init_args default_arg_def)
  have 3: "merged (SlurmGPU_default_settings (default_arg 1 n)) (heap w s)
           (SlurmGPU_settings (fst (SlurmGPU_init n e (Some s) a' g j w)))"
    using merged_dict_merge [OF wf_SlurmGPU_default_settings assms(2)] ns
    by (simp add: SlurmGPU_init_args default_arg_def)
  have 4: "merged (SlurmCPU_default_settings (nn * default_arg 16 ppn) nn) (heap w s)
           (SlurmCPU_settings (SlurmCPU_init nn e (Some s) a' ppn m g j w))"
    using merged_dict_merge [OF wf_SlurmCPU_default_settings assms(2)]
    by (simp add: SlurmCPU_init_settings default_arg_def)
  have 5: "heap (store_setitem a k v (snd (GPU_init n e (Some a) w)))
           (GPU_args (fst (GPU_init n e (Some a) w)))
         = heap (snd (GPU_init n e (Some a) w)) (GPU_args (fst (GPU_init n e (Some a) w)))"
    using na by (simp add: store_setitem_def GPU_init_args)
  have 6: "heap (store_setitem a k v (snd (SlurmGPU_init n e s' (Some a) g j w)))
           (SlurmGPU_args (fst (SlurmGPU_init n e s' (Some a) g j w)))
         = heap (snd (SlurmGPU_init n e s' (Some a) g j w))
             (SlurmGPU_args (fst (SlurmGPU_init n e s' (Some a) g j w)))"
    using na by (simp add: store_setitem_def SlurmGPU_init_args)
  from 1 2 3 4 5 6 show ?thesis by (intro conjI)
qed

theorem init_merges_caller_over_defaults_witness:
  "wf_dict (heap caller_world 7) \<and> wf_dict (heap caller_world 8)
   \<and> 7 < next_ref caller_world \<and> 8 < next_ref caller_world
   \<and> heap (snd (GPU_init (Some 2) None (Some 7) caller_world))
        (GPU_args (fst (GPU_init (Some 2) None (Some 7) caller_world)))
      = [(''-pk'', ''kokkos newton on comm no''), (''-k'', ''on g 2''), (''-sf'', ''gpu''),
         (''-log'', ''none'')]
   \<and> heap (snd (SlurmGPU_init None None None (Some 7) None None caller_world))
        (SlurmGPU_args (fst (SlurmGPU_init None None None (Some 7) None None caller_world)))
      = [(''-pk'', ''kokkos newton on neigh half''), (''-k'', ''on g 1''), (''-sf'', ''gpu''),
         (''-log'', ''none'')]
   \<and> SlurmGPU_settings (fst (SlurmGPU_init None None (Some 8) None None None caller_world))
      = [(''job-name'', ''GPU-job''), (''partition'', ''normal''), (''ntasks'', ''1''),
         (''cpus-per-task'', ''2''), (''gres'', ''gpu:1''), (''output'', ''slurm.out''),
         (''time'', ''01:00:00''), (''mem'', ''4G'')]
   \<and> SlurmCPU_settings (SlurmCPU_init 2 None (Some 8) None None None None None caller_world)
      = [(''job-name'', ''CPU-job''), (''account'', ''nn9272k''), (''time'', ''01:00:00''),
         (''partition'', ''normal''), (''ntasks'', ''32''), (''nodes'', ''2''),
         (''output'', ''slurm.out''), (''mem'', ''4G'')]"
proof -
  have wa: "wf_dict (heap caller_world 7)" and ws: "wf_dict (heap caller_world 8)"
    by (simp_all add: caller_world_simps wf_dict_def)
  have la: "7 < next_ref caller_world" and ls: "8 < next_ref caller_world"
    by (simp_all add: caller_world_simps)
  note t = init_merges_caller_over_defaults [OF wa ws la ls, unfolded merged_def]
  note g = t [where n = "Some 2" and e = None, THEN conjunct1, THEN conjunct1]
  note ga = t [where n = None and e = None and s' = None and g = None and j = None,
      THEN conjunct2, THEN conjunct1, THEN conjunct1]
  note gs = t [where n = None and e = None and a' = None and g = None and j = None,
      THEN conjunct2, THEN conjunct2, THEN conjunct1, THEN conjunct1]
  note cs = t [where nn = 2 and e = None and a' = None and ppn = None and m = None
        and g = None and j = None,
      THEN conjunct2, THEN conjunct2, THEN conjunct2, THEN conjunct1, THEN conjunct1]
  show ?thesis
    unfolding g ga gs cs using wa ws la ls
    by (simp add: caller_world_simps caller_over_defaults_def GPU_default_args_def
          SlurmGPU_default_args_def SlurmGPU_default_settings_def SlurmCPU_default_settings_def
          default_arg_def str_int_1 str_int_2 str_int_32)
qed

section \<open>The CPU cluster scenario\<close>




lemma SlurmCPU_init_fields:
  "SlurmCPU_num_nodes (SlurmCPU_init nn e s a ppn m g j w) = nn"
  "SlurmCPU_num_procs (SlurmCPU_init nn e s a ppn m g j w) = nn * default_arg 16 ppn"
  "SlurmCPU_lmp_exec (SlurmCPU_init nn e s a ppn m g j w) = default_arg ''lmp_mpi'' e"
  "SlurmCPU_lmp_module (SlurmCPU_init nn e s a ppn m g j w) =
     default_arg ''LAMMPS/13Mar18-foss-2018a'' m"
  "SlurmCPU_generate_jobscript (SlurmCPU_init nn e s a ppn m g j w) = default_arg True g"
  "SlurmCPU_jobscript (SlurmCPU_init nn e s a ppn m g j w) = default_arg ''jobscript'' j"
  "SlurmCPU_args (SlurmCPU_init nn e s a ppn m g j w) = default_arg SlurmCPU_init_args_default a"
  by (simp_all add: SlurmCPU_init_def Let_def)

lemma SlurmCPU_two_settings:
  assumes "heap w SlurmCPU_init_settings_default = []" and "ppn = None \<or> ppn = Some 16"
  shows "SlurmCPU_settings (SlurmCPU_init 2 e None a ppn m g j w) =
     [(''job-name'', ''CPU-job''), (''account'', ''nn9272k''), (''time'', ''05:00:00''),
      (''partition'', ''normal''), (''ntasks'', ''32''), (''nodes'', ''2''),
      (''output'', ''slurm.out'')]"
proof -
  from assms(2) have p: "default_arg 16 ppn = (16::int)" by (auto simp: default_arg_def)
  have d: "SlurmCPU_default_settings 32 2 =
     [(''job-name'', ''CPU-job''), (''account'', ''nn9272k''), (''time'', ''05:00:00''),
      (''partition'', ''normal''), (''ntasks'', ''32''), (''nodes'', ''2''),
      (''output'', ''slurm.out'')]"
    by (simp add: SlurmCPU_default_settings_def str_int_32 str_int_2)
  have m: "dict_merge
     [(''job-name'', ''CPU-job''), (''account'', ''nn9272k''), (''time'', ''05:00:00''),
      (''partition'', ''normal''), (''ntasks'', ''32''), (''nodes'', ''2''),
      (''output'', ''slurm.out'')] [] =
     [(''job-name'', ''CPU-job''), (''account'', ''nn9272k''), (''time'', ''05:00:00''),
      (''partition'', ''normal''), (''ntasks'', ''32''), (''nodes'', ''2''),
      (''output'', ''slurm.out'')]"
    by (simp add: dict_merge_def)
  have "SlurmCPU_settings (SlurmCPU_init 2 e None a ppn m g j w) =
      dict_merge (SlurmCPU_default_settings 32 2) []"
  proof -
    have dn: "default_arg SlurmCPU_init_settings_default None = SlurmCPU_init_settings_default"
      by (simp add: default_arg_def)
    show ?thesis using assms(1) by (simp add: SlurmCPU_init_settings p dn)
  qed
  then show ?thesis by (simp only: d m)
qed



section \<open>The GPU cluster job script\<close>











section \<open>The CPU cluster job script\<close>

lemma SlurmCPU_lines:
  assumes "dict_no_newline (SlurmCPU_settings self)" and "no_newline (SlurmCPU_lmp_module self)"
    and "no_newline (run_lammps (SlurmCPU_num_procs self) (SlurmCPU_lmp_exec self) args var)"
  shows "split_lines (SlurmCPU_jobscript_text self args var) =
     [''#!/bin/bash'', []] @ concat (map directive_lines (SlurmCPU_settings self))
       @ [''## Set up job environment:'', ''source /cluster/bin/jobsetup'', ''module purge'',
          ''set -o errexit'', [], ''module load '' @ SlurmCPU_lmp_module self, [],
          run_lammps (SlurmCPU_num_procs self) (SlurmCPU_lmp_exec self) args var]"
  unfolding split_lines_SlurmCPU [OF assms(1)] split_lines_module_load [OF assms(2)]
    split_lines_no_newline [OF assms(3)]
  by simp

text \<open>
  C8, as the code has it: the job script of a \<^verbatim>\<open>SlurmCPU\<close> is, in this order, the
  shebang line and an empty line; for every scheduler setting, in the order of the settings,
  the line \<^verbatim>\<open>#SBATCH --<key>=<value>\<close> and a line \<^verbatim>\<open>#\<close>; the comment line
  \<^verbatim>\<open>## Set up job environment:\<close>; the lines \<^verbatim>\<open>source /cluster/bin/jobsetup\<close>,
  \<^verbatim>\<open>module purge\<close> and \<^verbatim>\<open>set -o errexit\<close>; an empty line; the line that loads the
  module; an empty line; and the command, with no newline after it. \<^verbatim>\<open>gen_jobscript\<close>
  writes that text to the script path. The lines are read off the text when no newline
  character occurs in the settings, in the module name or in the command.
\<close>

theorem SlurmCPU_jobscript_layout:
  "SlurmCPU_jobscript_text self args var =
       ''#!/bin/bash\<newline>\<newline>'' @ concat (map directive_text (SlurmCPU_settings self))
       @ ''## Set up job environment:\<newline>''
       @ ''source /cluster/bin/jobsetup\<newline>''
       @ ''module purge\<newline>''
       @ ''set -o errexit\<newline>\<newline>''
       @ ''module load '' @ SlurmCPU_lmp_module self @ ''\<newline>\<newline>''
       @ run_lammps (SlurmCPU_num_procs self) (SlurmCPU_lmp_exec self) args var
   \<and> (can_open w (SlurmCPU_jobscript self) \<longrightarrow>
        (case SlurmCPU_gen_jobscript self ra rv w of
           Inr w' \<Rightarrow>
             files w' (SlurmCPU_jobscript self) =
               Some (SlurmCPU_jobscript_text self (heap w ra) (heap w rv))
         | Inl raised \<Rightarrow> False))
   \<and> (dict_no_newline (SlurmCPU_settings self) \<and> no_newline (SlurmCPU_lmp_module self)
        \<and> no_newline (run_lammps (SlurmCPU_num_procs self) (SlurmCPU_lmp_exec self) args var)
      \<longrightarrow> split_lines (SlurmCPU_jobscript_text self args var) =
            [''#!/bin/bash'', []] @ concat (map directive_lines (SlurmCPU_settings self))
            @ [''## Set up job environment:'', ''source /cluster/bin/jobsetup'',
               ''module purge'', ''set -o errexit'', [],
               ''module load '' @ SlurmCPU_lmp_module self, [],
               run_lammps (SlurmCPU_num_procs self) (SlurmCPU_lmp_exec self) args var])"
proof (intro conjI impI)
  show "SlurmCPU_jobscript_text self args var =
       ''#!/bin/bash\<newline>\<newline>'' @ concat (map directive_text (SlurmCPU_settings self))
       @ ''## Set up job environment:\<newline>''
       @ ''source /cluster/bin/jobsetup\<newline>''
       @ ''module purge\<newline>''
       @ ''set -o errexit\<newline>\<newline>''
       @ ''module load '' @ SlurmCPU_lmp_module self @ ''\<newline>\<newline>''
       @ run_lammps (SlurmCPU_num_procs self) (SlurmCPU_lmp_exec self) args var"
    by (rule SlurmCPU_jobscript_text_eq)
next
  assume "can_open w (SlurmCPU_jobscript self)"
  then show "case SlurmCPU_gen_jobscript self ra rv w of
           Inr w' \<Rightarrow>
             files w' (SlurmCPU_jobscript self) =
               Some (SlurmCPU_jobscript_text self (heap w ra) (heap w rv))
         | Inl raised \<Rightarrow> False"
    by (simp add: SlurmCPU_gen_jobscript_def write_file_def)
next
  assume "dict_no_newline (SlurmCPU_settings self) \<and> no_newline (SlurmCPU_lmp_module self)
        \<and> no_newline (run_lammps (SlurmCPU_num_procs self) (SlurmCPU_lmp_exec self) args var)"
  then show "split_lines (SlurmCPU_jobscript_text self args var) =
            [''#!/bin/bash'', []] @ concat (map directive_lines (SlurmCPU_settings self))
            @ [''## Set up job environment:'', ''source /cluster/bin/jobsetup'',
               ''module purge'', ''set -o errexit'', [],
               ''module load '' @ SlurmCPU_lmp_module self, [],
               run_lammps (SlurmCPU_num_procs self) (SlurmCPU_lmp_exec self) args var]"
    by (simp add: SlurmCPU_lines)
qed

lemma SlurmCPU_example:
  fixes c0 :: SlurmCPU
  defines "c0 \<equiv> SlurmCPU_init 2 None None None None None None None module_world"
  shows "SlurmCPU_settings c0 =
       [(''job-name'', ''CPU-job''), (''account'', ''nn9272k''), (''time'', ''05:00:00''),
        (''partition'', ''normal''), (''ntasks'', ''32''), (''nodes'', ''2''),
        (''output'', ''slurm.out'')]"
    and "SlurmCPU_lmp_module c0 = ''LAMMPS/13Mar18-foss-2018a''"
    and "SlurmCPU_jobscript c0 = ''jobscript''"
    and "run_lammps (SlurmCPU_num_procs c0) (SlurmCPU_lmp_exec c0) [(''-in'', ''in.melt'')] []
         = ''mpirun -n 32 lmp_mpi -in in.melt ''"
    and "dict_no_newline (SlurmCPU_settings c0)"
    and "no_newline (SlurmCPU_lmp_module c0)"
    and "no_newline (run_lammps (SlurmCPU_num_procs c0) (SlurmCPU_lmp_exec c0)
           [(''-in'', ''in.melt'')] [])"
proof -
  have h: "heap module_world SlurmCPU_init_settings_default = []"
    by (simp add: module_world_def)
  show s: "SlurmCPU_settings c0 =
       [(''job-name'', ''CPU-job''), (''account'', ''nn9272k''), (''time'', ''05:00:00''),
        (''partition'', ''normal''), (''ntasks'', ''32''), (''nodes'', ''2''),
        (''output'', ''slurm.out'')]"
    unfolding c0_def by (rule SlurmCPU_two_settings [OF h]) simp
  show m: "SlurmCPU_lmp_module c0 = ''LAMMPS/13Mar18-foss-2018a''"
    and "SlurmCPU_jobscript c0 = ''jobscript''"
    by (simp_all add: c0_def SlurmCPU_init_fields default_arg_def)
  show r: "run_lammps (SlurmCPU_num_procs c0) (SlurmCPU_lmp_exec c0) [(''-in'', ''in.melt'')] []
         = ''mpirun -n 32 lmp_mpi -in in.melt ''"
    by (simp add: c0_def SlurmCPU_init_fields default_arg_def run_lammps_def str_int_32)
  show "dict_no_newline (SlurmCPU_settings c0)"
    unfolding s by (simp add: dict_no_newline_def no_newline_simps)
  show "no_newline (SlurmCPU_lmp_module c0)"
    unfolding m by (simp add: no_newline_simps)
  show "no_newline (run_lammps (SlurmCPU_num_procs c0) (SlurmCPU_lmp_exec c0)
           [(''-in'', ''in.melt'')] [])"
    unfolding r by (simp add: no_newline_simps)
qed

lemma SlurmCPU_example_lines:
  "split_lines (SlurmCPU_jobscript_text
       (SlurmCPU_init 2 None None None None None None None module_world)
       [(''-in'', ''in.melt'')] []) =
     [''#!/bin/bash'', [],
      ''#SBATCH --job-name=CPU-job'', ''#'', ''#SBATCH --account=nn9272k'', ''#'',
      ''#SBATCH --time=05:00:00'', ''#'', ''#SBATCH --partition=normal'', ''#'',
      ''#SBATCH --ntasks=32'', ''#'', ''#SBATCH --nodes=2'', ''#'',
      ''#SBATCH --output=slurm.out'', ''#'',
      ''## Set up job environment:'', ''source /cluster/bin/jobsetup'', ''module purge'',
      ''set -o errexit'', [], ''module load LAMMPS/13Mar18-foss-2018a'', [],
      ''mpirun -n 32 lmp_mpi -in in.melt '']"
  unfolding SlurmCPU_lines [OF SlurmCPU_example(5,6,7)] SlurmCPU_example(1,2,4)
  by (simp add: directive_lines_def)

theorem SlurmCPU_jobscript_layout_witness:
  "can_open module_world
     (SlurmCPU_jobscript (SlurmCPU_init 2 None None None None None None None module_world))
   \<and> dict_no_newline
       (SlurmCPU_settings (SlurmCPU_init 2 None None None None None None None module_world))
   \<and> no_newline
       (SlurmCPU_lmp_module (SlurmCPU_init 2 None None None None None None None module_world))
   \<and> no_newline
       (run_lammps
          (SlurmCPU_num_procs (SlurmCPU_init 2 None None None None None None None module_world))
          (SlurmCPU_lmp_exec (SlurmCPU_init 2 None None None None None None None module_world))
          [(''-in'', ''in.melt'')] [])
   \<and> split_lines (SlurmCPU_jobscript_text
         (SlurmCPU_init 2 None None None None None None None module_world)
         [(''-in'', ''in.melt'')] []) =
       [''#!/bin/bash'', [],
        ''#SBATCH --job-name=CPU-job'', ''#'', ''#SBATCH --account=nn9272k'', ''#'',
        ''#SBATCH --time=05:00:00'', ''#'', ''#SBATCH --partition=normal'', ''#'',
        ''#SBATCH --ntasks=32'', ''#'', ''#SBATCH --nodes=2'', ''#'',
        ''#SBATCH --output=slurm.out'', ''#'',
        ''## Set up job environment:'', ''source /cluster/bin/jobsetup'', ''module purge'',
        ''set -o errexit'', [], ''module load LAMMPS/13Mar18-foss-2018a'', [],
        ''mpirun -n 32 lmp_mpi -in in.melt '']"
proof -
  let ?c = "SlurmCPU_init 2 None None None None None None None module_world"
  have o: "can_open module_world (SlurmCPU_jobscript ?c)" by (simp add: module_world_def)
  note e = SlurmCPU_example
  note t = SlurmCPU_jobscript_layout [where self = ?c and args = "[(''-in'', ''in.melt'')]"
      and var = "[]", THEN conjunct2, THEN conjunct2, THEN mp,
      OF conjI [OF e(5) conjI [OF e(6) e(7)]]]
  have "split_lines (SlurmCPU_jobscript_text ?c [(''-in'', ''in.melt'')] []) =
       [''#!/bin/bash'', [],
        ''#SBATCH --job-name=CPU-job'', ''#'', ''#SBATCH --account=nn9272k'', ''#'',
        ''#SBATCH --time=05:00:00'', ''#'', ''#SBATCH --partition=normal'', ''#'',
        ''#SBATCH --ntasks=32'', ''#'', ''#SBATCH --nodes=2'', ''#'',
        ''#SBATCH --output=slurm.out'', ''#'',
        ''## Set up job environment:'', ''source /cluster/bin/jobsetup'', ''module purge'',
        ''set -o errexit'', [], ''module load LAMMPS/13Mar18-foss-2018a'', [],
        ''mpirun -n 32 lmp_mpi -in in.melt '']"
    unfolding t e(1,2,4) by (simp add: directive_lines_def)
  with o e(5,6,7) show ?thesis by (intro conjI)
qed

theorem SlurmCPU_jobscript_layout_counterexample:
  "split_lines (SlurmCPU_jobscript_text
       (SlurmCPU_init 2 None None None None None None None module_world)
       [(''-in'', ''in.melt'')] [])
     \<noteq> jobscript_lines_as_claimed
         (SlurmCPU_init 2 None None None None None None None module_world)
         [(''-in'', ''in.melt'')] []
   \<and> split_lines (SlurmCPU_jobscript_text
         (SlurmCPU_init 2 None None None None None None None module_world)
         [(''-in'', ''in.melt'')] []) ! 1 = []
   \<and> jobscript_lines_as_claimed
         (SlurmCPU_init 2 None None None None None None None module_world)
         [(''-in'', ''in.melt'')] [] ! 1 = ''#SBATCH --job-name=CPU-job''
   \<and> split_lines (SlurmCPU_jobscript_text
         (SlurmCPU_init 2 None None None None None None None module_world)
         [(''-in'', ''in.melt'')] []) ! 3 = ''#''
   \<and> split_lines (SlurmCPU_jobscript_text
         (SlurmCPU_init 2 None None None None None None None module_world)
         [(''-in'', ''in.melt'')] []) ! 16 = ''## Set up job environment:''
   \<and> length (split_lines (SlurmCPU_jobscript_text
         (SlurmCPU_init 2 None None None None None None None module_world)
         [(''-in'', ''in.melt'')] [])) = 24
   \<and> length (jobscript_lines_as_claimed
         (SlurmCPU_init 2 None None None None None None None module_world)
         [(''-in'', ''in.melt'')] []) = 13"
proof -
  have c: "jobscript_lines_as_claimed
         (SlurmCPU_init 2 None None None None None None None module_world)
         [(''-in'', ''in.melt'')] [] =
       [''#!/bin/bash'',
        ''#SBATCH --job-name=CPU-job'', ''#SBATCH --account=nn9272k'',
        ''#SBATCH --time=05:00:00'', ''#SBATCH --partition=normal'',
        ''#SBATCH --ntasks=32'', ''#SBATCH --nodes=2'', ''#SBATCH --output=slurm.out'',
        ''source /cluster/bin/jobsetup'', ''module purge'', ''set -o errexit'',
        ''module load LAMMPS/13Mar18-foss-2018a'',
        ''mpirun -n 32 lmp_mpi -in in.melt '']"
    unfolding jobscript_lines_as_claimed_def SlurmCPU_example(1,2,4) by simp
  show ?thesis
    unfolding SlurmCPU_example_lines c by simp
qed

section \<open>Default option dictionaries\<close>

text \<open>
  \<^verbatim>\<open>GPU\<close> and \<^verbatim>\<open>SlurmGPU\<close> store a dictionary of their own: a launch on one target
  leaves the options of a target constructed after it as they are.
\<close>

lemma GPU_args_not_shared:
  "GPU_args (fst (GPU_init n' e' a' (snd (GPU_init n e a w)))) \<noteq> GPU_args (fst (GPU_init n e a w))"
  "heap (GPU_call (fst (GPU_init n e a w)) s v (snd (GPU_init n' e' a' (snd (GPU_init n e a w)))))
     (GPU_args (fst (GPU_init n' e' a' (snd (GPU_init n e a w)))))
   = heap (snd (GPU_init n' e' a' (snd (GPU_init n e a w))))
       (GPU_args (fst (GPU_init n' e' a' (snd (GPU_init n e a w)))))"
  by (simp_all add: GPU_init_def new_dict_def Let_def GPU_call_def store_setitem_def
        os_system_def)

text \<open>
  C9 fails on the code for \<^verbatim>\<open>CPU\<close> and \<^verbatim>\<open>SlurmCPU\<close>: both store the dictionary they
  are given, and a construction without options is given the one default dictionary of the
  constructor. Two \<^verbatim>\<open>CPU\<close> targets constructed without options refer to the same
  dictionary: it is empty after the module is loaded, and a launch of \<^verbatim>\<open>in.melt\<close> on the
  first target puts the entry \<^verbatim>\<open>-in\<close> into the options of the second. The same holds
  for two \<^verbatim>\<open>SlurmCPU\<close> targets.
\<close>

theorem CPU_default_args_shared:
  "CPU_args (CPU_init None None None) = CPU_args (CPU_init (Some 8) None None)
   \<and> heap (snd (new_dict [(''T'', ''300'')] module_world))
        (CPU_args (CPU_init (Some 8) None None)) = []
   \<and> heap (CPU_call (CPU_init None None None) ''in.melt''
          (fst (new_dict [(''T'', ''300'')] module_world))
          (snd (new_dict [(''T'', ''300'')] module_world)))
        (CPU_args (CPU_init (Some 8) None None)) = [(''-in'', ''in.melt'')]
   \<and> SlurmCPU_args (SlurmCPU_init 2 None None None None None None None module_world)
       = SlurmCPU_args (SlurmCPU_init 4 None None None None None None None module_world)
   \<and> heap (snd (new_dict [(''T'', ''300'')] module_world))
        (SlurmCPU_args (SlurmCPU_init 4 None None None None None None None module_world)) = []
   \<and> (case SlurmCPU_call (SlurmCPU_init 2 None None None None None None None module_world)
              ''in.melt'' (fst (new_dict [(''T'', ''300'')] module_world))
              (snd (new_dict [(''T'', ''300'')] module_world)) of
         Inr w' \<Rightarrow>
           heap w' (SlurmCPU_args (SlurmCPU_init 4 None None None None None None None module_world))
             = [(''-in'', ''in.melt'')]
       | Inl raised \<Rightarrow> False)"
  by (simp add: CPU_init_def CPU_call_def SlurmCPU_init_fields SlurmCPU_call_def
        SlurmCPU_gen_jobscript_def write_file_def default_arg_def new_dict_def Let_def
        store_setitem_def os_system_def module_world_def CPU_init_args_default_def
        SlurmCPU_init_args_default_def)

section \<open>The abstract class\<close>

text \<open>
  C10: constructing a \<^verbatim>\<open>Computer\<close> and calling one raise \<^verbatim>\<open>NotImplementedError\<close>
  with the name of the class in the message, whatever the arguments are. It is the only
  check of the module: no call of a \<^verbatim>\<open>CPU\<close>, \<^verbatim>\<open>GPU\<close>, \<^verbatim>\<open>SlurmCPU\<close> or
  \<^verbatim>\<open>SlurmGPU\<close> raises that error, the local targets never raise, and a cluster target
  raises nothing but the error of \<^verbatim>\<open>open\<close> for its script path.
\<close>

theorem Computer_unimplemented:
  "Computer_init class_name lmp_exec args =
     Inl (NotImplementedError (''Class '' @ class_name @ '' has no instance '__init__'.''))
   \<and> Computer_call class_name lmp_script var =
     Inl (NotImplementedError (''Class '' @ class_name @ '' has no instance '__call__'.''))
   \<and> Computer_init ''Computer'' lmp_exec args =
     Inl (NotImplementedError ''Class Computer has no instance '__init__'.'')
   \<and> Computer_call ''Computer'' lmp_script var =
     Inl (NotImplementedError ''Class Computer has no instance '__call__'.'')
   \<and> call c lmp_script var w \<noteq> Inl (NotImplementedError msg, w')
   \<and> call (CPU_obj cpu) lmp_script var w \<noteq> Inl raised
   \<and> call (GPU_obj gpu) lmp_script var w \<noteq> Inl raised
   \<and> (case call c lmp_script var w of
         Inr w1 \<Rightarrow> True
       | Inl (e, w1) \<Rightarrow> map_option OSError (generated_script c) = Some e)"
proof -
  have 1: "call c lmp_script var w \<noteq> Inl (NotImplementedError msg, w')"
  proof (cases "unblocked c w")
    case True
    from call_unblocked [OF this, of lmp_script var] show ?thesis by auto
  next
    case False
    then obtain p where "generated_script c = Some p" "\<not> can_open w p"
      by (cases "generated_script c") (simp_all add: unblocked_def)
    from call_blocked [OF this, of lmp_script var] show ?thesis by simp
  qed
  have 2: "case call c lmp_script var w of
         Inr w1 \<Rightarrow> True
       | Inl (e, w1) \<Rightarrow> map_option OSError (generated_script c) = Some e"
  proof (cases "unblocked c w")
    case True
    from call_unblocked [OF this, of lmp_script var] show ?thesis by auto
  next
    case False
    then obtain p where p: "generated_script c = Some p" "\<not> can_open w p"
      by (cases "generated_script c") (simp_all add: unblocked_def)
    from call_blocked [OF this, of lmp_script var] p(1) show ?thesis by simp
  qed
  from 1 2 show ?thesis
    by (simp add: Computer_init_def Computer_call_def)
qed

end
